theory Spec2Isabelle
  imports Main
begin

section \<open>Values\<close>

text \<open>
  The value \<open>JSONbig.parse\<close> hands back. An integer literal of more than 15 characters
  comes back as a BigNumber object (\<open>JBig\<close>, holding its digits); every other number is
  a JavaScript number, modelled here on the integers.
\<close>

datatype json =
    JNull
  | JBool bool
  | JNum int
  | JBig string
  | JStr string
  | JArr "json list"
  | JObj "(string \<times> json) list"

text \<open>JavaScript truthiness, as used by \<open>&&\<close> and \<open>if\<close>: objects are always truthy.\<close>

fun truthy :: "json \<Rightarrow> bool" where
  "truthy JNull = False"
| "truthy (JBool b) = b"
| "truthy (JNum n) = (n \<noteq> 0)"
| "truthy (JBig ds) = True"
| "truthy (JStr s) = (s \<noteq> [])"
| "truthy (JArr xs) = True"
| "truthy (JObj kvs) = True"

text \<open>Property read \<open>data.key\<close> on a non-null value: \<open>None\<close> is \<open>undefined\<close>.\<close>

fun field :: "json \<Rightarrow> string \<Rightarrow> json option" where
  "field (JObj kvs) key = map_of kvs key"
| "field data key = None"

text \<open>\<open>s.includes(sub)\<close> on strings.\<close>

fun str_includes :: "string \<Rightarrow> string \<Rightarrow> bool" where
  "str_includes [] sub = (sub = [])"
| "str_includes (c # cs) sub = (take (length sub) (c # cs) = sub \<or> str_includes cs sub)"

text \<open>\<open>obj[key] = v\<close> on an object kept as the list of its own properties, in order.\<close>

fun set_prop :: "string \<Rightarrow> 'v \<Rightarrow> (string \<times> 'v) list \<Rightarrow> (string \<times> 'v) list" where
  "set_prop key v [] = [(key, v)]"
| "set_prop key v ((k, w) # kvs) =
     (if k = key then (key, v) # kvs else (k, w) # set_prop key v kvs)"

text \<open>\<open>Object.assign(target, source)\<close>: every own property of the source, in order.\<close>

definition Object_assign :: "(string \<times> 'v) list \<Rightarrow> (string \<times> 'v) list \<Rightarrow> (string \<times> 'v) list" where
  "Object_assign target source = fold (\<lambda>(key, v) t. set_prop key v t) source target"

section \<open>AccessToken\<close>

record AccessToken =
  accessToken :: string
  expireTime :: int

text \<open>
  \<open>isValid() { return !!this.accessToken && Date.now() < this.expireTime; }\<close>
  The second argument is the reading of \<open>Date.now()\<close>, in milliseconds.
\<close>

definition truthy_string :: "string \<Rightarrow> bool" where
  "truthy_string s = (length s \<noteq> 0)"

definition isValid :: "AccessToken \<Rightarrow> int \<Rightarrow> bool" where
  "isValid this date_now = (truthy_string (accessToken this) \<and> date_now < expireTime this)"

section \<open>Errors\<close>

text \<open>
  One constructor for each \<open>throw\<close> of the functions modelled here, and one for an
  exception that comes out of a collaborator (\<open>httpx\<close>, a token hook of the embedder).
  \<^item> \<open>StatusError url status\<close>: \<open>Error(`url: ${url}, status code: ${res.statusCode}`)\<close>,
    named WeChatAPIError;
  \<^item> \<open>ParseError origin\<close>: \<open>Error('JSON.parse error. buffer is ' + origin)\<close>, named
    WeChatAPIError;
  \<^item> \<open>APIError code errmsg\<close>: \<open>Error(data.errmsg)\<close> named WeChatAPIError, with
    \<open>err.code = data.errcode\<close>;
  \<^item> \<open>SuperCantSetToken\<close>: \<open>Error('super can\'t set access token')\<close>;
  \<^item> \<open>AccessTokenError\<close>: \<open>Error('accessToken Error')\<close> named WeChatAPIError, with
    \<open>err.code = 40001\<close>;
  \<^item> \<open>CantSetToken\<close>: \<open>Error('can\'t set access token')\<close>;
  \<^item> \<open>OverrideError key\<close>:
    \<open>Error('Don\'t allow override existed prototype method. method: ' + key)\<close>.
\<close>

datatype error =
    StatusError string int
  | ParseError string
  | APIError json "json option"
  | SuperCantSetToken
  | AccessTokenError
  | CantSetToken
  | OverrideError string
  | External string

fun err_name :: "error \<Rightarrow> string" where
  "err_name (StatusError url status) = ''WeChatAPIError''"
| "err_name (ParseError origin) = ''WeChatAPIError''"
| "err_name (APIError c msg) = ''WeChatAPIError''"
| "err_name AccessTokenError = ''WeChatAPIError''"
| "err_name e = ''Error''"

fun err_code :: "error \<Rightarrow> json option" where
  "err_code (APIError c msg) = Some c"
| "err_code AccessTokenError = Some (JNum 40001)"
| "err_code e = None"

section \<open>The client and what it can change\<close>

text \<open>
  An options object (\<open>this.defaults\<close>, the \<open>opts\<close> of a call, the \<open>options\<close> handed to
  \<open>httpx.request\<close>). The \<open>headers\<close> property is the one \<open>request\<close> looks into: it is
  absent, or holds a falsy value, or refers to a headers object on the heap. Every other
  own property is kept with its value in \<open>others\<close>.
\<close>

type_synonym addr = nat

datatype hval = HAbsent | HFalsy | HObj addr

record options =
  headers :: hval
  others :: "(string \<times> string) list"

type_synonym hobject = "(string \<times> string) list"

record response =
  statusCode :: int
  content_type :: "string option"
  body :: "string option"

text \<open>
  A call of \<open>httpx.request(url, options)\<close> as the transport sees it: the url, the options
  object, and the contents of the headers object at the time of the call.
\<close>

record sent =
  s_url :: string
  s_options :: options
  s_headers :: "hobject option"

text \<open>
  What a call can read and change: the state the token hooks work on (\<open>this.store\<close> for
  the default hooks), \<open>this.defaults\<close>, the headers objects, the responses the transport
  will give to the next calls (\<open>body = None\<close>: \<open>httpx.read\<close> fails; no response left:
  \<open>httpx.request\<close> fails), the calls made so far, and the clock.
\<close>

record 's mem =
  store :: 's
  defaults :: options
  heap :: "hobject list"
  responses :: "response list"
  sent_log :: "sent list"
  now :: int

record 's client =
  appid :: string
  appsecret :: string
  getToken :: "'s \<Rightarrow> (error + AccessToken option) \<times> 's"
  saveToken :: "AccessToken option \<Rightarrow> 's \<Rightarrow> (error + unit) \<times> 's"
  tokenFromCustom :: bool

text \<open>
  The hooks the constructor installs when the embedder gives none:
  \<open>async function () { return this.store; }\<close> and
  \<open>async function (token) { this.store = token; ... }\<close> (the warning it prints in production
  is not modelled). The state of the hooks is \<open>this.store\<close> paired with whatever the
  embedder's own hooks keep.
\<close>

definition default_getToken :: "AccessToken option \<times> 'e \<Rightarrow> (error + AccessToken option) \<times> (AccessToken option \<times> 'e)" where
  "default_getToken s = (Inr (fst s), s)"

definition default_saveToken :: "AccessToken option \<Rightarrow> AccessToken option \<times> 'e \<Rightarrow> (error + unit) \<times> (AccessToken option \<times> 'e)" where
  "default_saveToken token s = (Inr (), (token, snd s))"

definition API ::
  "string \<Rightarrow> string
   \<Rightarrow> (AccessToken option \<times> 'e \<Rightarrow> (error + AccessToken option) \<times> (AccessToken option \<times> 'e)) option
   \<Rightarrow> (AccessToken option \<Rightarrow> AccessToken option \<times> 'e \<Rightarrow> (error + unit) \<times> (AccessToken option \<times> 'e)) option
   \<Rightarrow> bool \<Rightarrow> (AccessToken option \<times> 'e) client" where
  "API appid' appsecret' getToken' saveToken' tokenFromCustom' =
     \<lparr>appid = appid', appsecret = appsecret',
      getToken = (case getToken' of Some g \<Rightarrow> g | None \<Rightarrow> default_getToken),
      saveToken = (case saveToken' of Some f \<Rightarrow> f | None \<Rightarrow> default_saveToken),
      tokenFromCustom = tokenFromCustom'\<rparr>"

text \<open>The mutable fields right after the constructor: no \<open>store\<close>, \<open>defaults = {}\<close>.\<close>

definition API_mem :: "'e \<Rightarrow> response list \<Rightarrow> int \<Rightarrow> (AccessToken option \<times> 'e) mem" where
  "API_mem e rs t =
     \<lparr>store = (None, e), defaults = \<lparr>headers = HAbsent, others = []\<rparr>, heap = [],
      responses = rs, sent_log = [], now = t\<rparr>"

definition setOpts :: "options \<Rightarrow> 's mem \<Rightarrow> 's mem" where
  "setOpts opts m = m\<lparr>defaults := opts\<rparr>"

definition call_getToken :: "'s client \<Rightarrow> 's mem \<Rightarrow> (error + AccessToken option) \<times> 's mem" where
  "call_getToken this m = (case getToken this (store m) of (r, s) \<Rightarrow> (r, m\<lparr>store := s\<rparr>))"

definition call_saveToken :: "'s client \<Rightarrow> AccessToken option \<Rightarrow> 's mem \<Rightarrow> (error + unit) \<times> 's mem" where
  "call_saveToken this token m = (case saveToken this token (store m) of (r, s) \<Rightarrow> (r, m\<lparr>store := s\<rparr>))"

section \<open>request\<close>

text \<open>The collaborators of \<open>request\<close> that live outside this file.\<close>

record urlobj =
  query :: "(string \<times> string) list"
  search :: "string option"
  rest :: string

record libs =
  replaceJSONCtlChars :: "string \<Rightarrow> string"
  JSONbig_parse :: "string \<Rightarrow> json option"
  liburl_parse :: "string \<Rightarrow> urlobj"
  liburl_format :: "urlobj \<Rightarrow> string"

text \<open>
  The headers object at an address. Addresses come from allocations only, so the address
  is in range wherever the source can reach; outside it the model reads an empty object.
\<close>

definition deref :: "hobject list \<Rightarrow> addr \<Rightarrow> hobject" where
  "deref h a = (if a < length h then h ! a else [])"

text \<open>
  Lines 107 to 121. \<open>Object.assign(options, this.defaults)\<close> copies the properties of the
  defaults, so \<open>options.headers\<close> is the very object \<open>this.defaults.headers\<close> refers to.
  The loop then writes every key of \<open>opts\<close> but \<open>headers\<close> over it; for a truthy
  \<open>opts.headers\<close> it assigns the entries into \<open>options.headers\<close>, or into a new object
  when that is falsy or absent.
\<close>

definition merge_options :: "options option \<Rightarrow> 's mem \<Rightarrow> options \<times> 's mem" where
  "merge_options opts m =
     (let opts' = (case opts of None \<Rightarrow> \<lparr>headers = HAbsent, others = []\<rparr> | Some given \<Rightarrow> given);
          others' = Object_assign (others (defaults m)) (others opts')
      in case headers opts' of
           HObj src \<Rightarrow>
             (case headers (defaults m) of
                HObj tgt \<Rightarrow>
                  (\<lparr>headers = HObj tgt, others = others'\<rparr>,
                   m\<lparr>heap := (heap m)[tgt := Object_assign (deref (heap m) tgt) (deref (heap m) src)]\<rparr>)
              | _ \<Rightarrow>
                  (\<lparr>headers = HObj (length (heap m)), others = others'\<rparr>,
                   m\<lparr>heap := heap m @ [Object_assign [] (deref (heap m) src)]\<rparr>))
         | _ \<Rightarrow> (\<lparr>headers = headers (defaults m), others = others'\<rparr>, m))"

text \<open>Line 123: the call is recorded, and the transport gives its next response.\<close>

definition httpx_request :: "string \<Rightarrow> options \<Rightarrow> 's mem \<Rightarrow> (error + response) \<times> 's mem" where
  "httpx_request url opts m =
     (let call = \<lparr>s_url = url, s_options = opts,
                  s_headers = (case headers opts of HObj a \<Rightarrow> Some (deref (heap m) a) | _ \<Rightarrow> None)\<rparr>;
          m' = m\<lparr>sent_log := sent_log m @ [call]\<rparr>
      in case responses m of
           [] \<Rightarrow> (Inl (External ''httpx.request''), m')
         | res # rs \<Rightarrow> (Inr res, m'\<lparr>responses := rs\<rparr>))"

text \<open>What \<open>request\<close> returns: the parsed data, the text of the body, or the buffer.\<close>

datatype result = Data json | Origin string | Buffer string

text \<open>
  \<open>getAccessToken\<close> throws in its first statement; the statements after it are never run.
\<close>

definition getAccessToken :: "'s client \<Rightarrow> 's mem \<Rightarrow> (error + AccessToken) \<times> 's mem" where
  "getAccessToken this m = (Inl SuperCantSetToken, m)"

text \<open>Lines 156 to 163: the url \<open>request\<close> calls itself with.\<close>

definition retry_url :: "libs \<Rightarrow> string \<Rightarrow> AccessToken \<Rightarrow> string" where
  "retry_url L url token =
     (let u = liburl_parse L url
      in liburl_format L
           (case map_of (query u) ''access_token'' of
              Some v \<Rightarrow>
                if truthy_string v
                then u\<lparr>query := set_prop ''access_token'' (accessToken token) (query u), search := None\<rparr>
                else u
            | None \<Rightarrow> u))"

function request ::
  "'s client \<Rightarrow> libs \<Rightarrow> string \<Rightarrow> options option \<Rightarrow> int option \<Rightarrow> 's mem \<Rightarrow> (error + result) \<times> 's mem" where
  "request this L url opts retry m =
     (let retry' = (case retry of None \<Rightarrow> 3 | Some r \<Rightarrow> r);
          opts' = (case opts of None \<Rightarrow> \<lparr>headers = HAbsent, others = []\<rparr> | Some given \<Rightarrow> given)
      in case merge_options opts m of (options, m1) \<Rightarrow>
         (case httpx_request url options m1 of
            (Inl e, m2) \<Rightarrow> (Inl e, m2)
          | (Inr res, m2) \<Rightarrow>
              if statusCode res < 200 \<or> statusCode res > 204
              then (Inl (StatusError url (statusCode res)), m2)
              else
                (case body res of
                   None \<Rightarrow> (Inl (External ''httpx.read''), m2)
                 | Some buffer \<Rightarrow>
                     let contentType = (case content_type res of None \<Rightarrow> [] | Some t \<Rightarrow> t)
                     in if str_includes contentType ''application/json'' \<or> str_includes contentType ''text/plain''
                        then
                          (case JSONbig_parse L (replaceJSONCtlChars L buffer) of
                             None \<Rightarrow>
                               if str_includes contentType ''text/plain''
                               then (Inr (Origin buffer), m2)
                               else (Inl (ParseError buffer), m2)
                           | Some data \<Rightarrow>
                               (case (if truthy data then field data ''errcode'' else None) of
                                  None \<Rightarrow> (Inr (Data data), m2)
                                | Some code \<Rightarrow>
                                    if truthy code
                                    then
                                      if (code = JNum 40001 \<or> code = JNum 42001) \<and> retry' > 0 \<and> \<not> tokenFromCustom this
                                      then
                                        (case call_saveToken this None m2 of
                                           (Inl e, m3) \<Rightarrow> (Inl e, m3)
                                         | (Inr u, m3) \<Rightarrow>
                                             (case getAccessToken this m3 of
                                                (Inl e, m4) \<Rightarrow> (Inl e, m4)
                                              | (Inr token, m4) \<Rightarrow>
                                                  request this L (retry_url L url token) (Some opts') (Some (retry' - 1)) m4))
                                      else (Inl (APIError code (field data ''errmsg'')), m2)
                                    else (Inr (Data data), m2)))
                        else (Inr (Buffer buffer), m2))))"
  by pat_completeness auto
termination
  by (relation "measure (\<lambda>(this, L, url, opts, retry, m). nat (case retry of None \<Rightarrow> 3 | Some r \<Rightarrow> r))") auto

declare request.simps [simp del]

text \<open>
  Line 155, \<open>this.getAccessToken()\<close>, is a method call: an object that overrides
  \<open>getAccessToken\<close> (a subclass of \<open>API\<close>) runs lines 102 to 173 with its own method.
  \<open>request_dispatch acquire\<close> is \<open>request\<close> with the method the object answers with as a
  parameter; with the method of line 188 it is \<open>request\<close>.
\<close>

function request_dispatch ::
  "('s client \<Rightarrow> 's mem \<Rightarrow> (error + AccessToken) \<times> 's mem)
   \<Rightarrow> 's client \<Rightarrow> libs \<Rightarrow> string \<Rightarrow> options option \<Rightarrow> int option \<Rightarrow> 's mem \<Rightarrow> (error + result) \<times> 's mem" where
  "request_dispatch acquire this L url opts retry m =
     (let retry' = (case retry of None \<Rightarrow> 3 | Some r \<Rightarrow> r);
          opts' = (case opts of None \<Rightarrow> \<lparr>headers = HAbsent, others = []\<rparr> | Some given \<Rightarrow> given)
      in case merge_options opts m of (options, m1) \<Rightarrow>
         (case httpx_request url options m1 of
            (Inl e, m2) \<Rightarrow> (Inl e, m2)
          | (Inr res, m2) \<Rightarrow>
              if statusCode res < 200 \<or> statusCode res > 204
              then (Inl (StatusError url (statusCode res)), m2)
              else
                (case body res of
                   None \<Rightarrow> (Inl (External ''httpx.read''), m2)
                 | Some buffer \<Rightarrow>
                     let contentType = (case content_type res of None \<Rightarrow> [] | Some t \<Rightarrow> t)
                     in if str_includes contentType ''application/json'' \<or> str_includes contentType ''text/plain''
                        then
                          (case JSONbig_parse L (replaceJSONCtlChars L buffer) of
                             None \<Rightarrow>
                               if str_includes contentType ''text/plain''
                               then (Inr (Origin buffer), m2)
                               else (Inl (ParseError buffer), m2)
                           | Some data \<Rightarrow>
                               (case (if truthy data then field data ''errcode'' else None) of
                                  None \<Rightarrow> (Inr (Data data), m2)
                                | Some code \<Rightarrow>
                                    if truthy code
                                    then
                                      if (code = JNum 40001 \<or> code = JNum 42001) \<and> retry' > 0 \<and> \<not> tokenFromCustom this
                                      then
                                        (case call_saveToken this None m2 of
                                           (Inl e, m3) \<Rightarrow> (Inl e, m3)
                                         | (Inr u, m3) \<Rightarrow>
                                             (case acquire this m3 of
                                                (Inl e, m4) \<Rightarrow> (Inl e, m4)
                                              | (Inr token, m4) \<Rightarrow>
                                                  request_dispatch acquire this L (retry_url L url token)
                                                    (Some opts') (Some (retry' - 1)) m4))
                                      else (Inl (APIError code (field data ''errmsg'')), m2)
                                    else (Inr (Data data), m2)))
                        else (Inr (Buffer buffer), m2))))"
  by pat_completeness auto
termination
  by (relation "measure (\<lambda>(acquire, this, L, url, opts, retry, m). nat (case retry of None \<Rightarrow> 3 | Some r \<Rightarrow> r))") auto

declare request_dispatch.simps [simp del]

section \<open>ensureAccessToken\<close>

text \<open>
  Lines 221 to 234. \<open>new AccessToken(token.accessToken, token.expireTime)\<close> copies the two
  fields of the object the hook gave; a falsy \<open>token\<close> skips the validity test.
\<close>

definition ensureAccessToken :: "'s client \<Rightarrow> 's mem \<Rightarrow> (error + AccessToken) \<times> 's mem" where
  "ensureAccessToken this m =
     (case call_getToken this m of
        (Inl e, m1) \<Rightarrow> (Inl e, m1)
      | (Inr token, m1) \<Rightarrow>
          let otherwise =
                (if tokenFromCustom this then (Inl AccessTokenError, m1) else (Inl CantSetToken, m1))
          in case token of
               None \<Rightarrow> otherwise
             | Some t \<Rightarrow>
                 let accessToken' = \<lparr>accessToken = accessToken t, expireTime = expireTime t\<rparr>
                 in if isValid accessToken' (now m1) then (Inr accessToken', m1) else otherwise)"

section \<open>mixin\<close>

text \<open>
  \<open>API.prototype\<close> is a table from names to its own properties; \<open>obj\<close> is given as its
  enumerable properties in the order \<open>for (var key in obj)\<close> visits them.
\<close>

type_synonym 'f prototype = "string \<Rightarrow> 'f option"

text \<open>
  What the JavaScript runtime does with the values of \<open>obj\<close>, where the loop depends on it:
  \<^item> \<open>call_hasOwnProperty h key proto\<close>: the call \<open>API.prototype.hasOwnProperty(key)\<close> of
    line 309 once the name \<open>hasOwnProperty\<close> is an own property holding \<open>h\<close>: the truthiness of
    what \<open>h\<close> returns, or what it throws (a TypeError when \<open>h\<close> is not a function), and the
    table as the call leaves it;
  \<^item> \<open>object_or_null v\<close>: whether \<open>v\<close> is an object or \<open>null\<close>, the values the setter of
    \<open>Object.prototype.__proto__\<close> acts on;
  \<^item> \<open>set_prototype v rest proto\<close>: the assignment \<open>API.prototype['__proto__'] = v\<close> for such
    a value, which replaces the prototype chain of \<open>API.prototype\<close> (or throws), followed by
    the rest of the loop on the new chain.
\<close>

record 'f runtime =
  call_hasOwnProperty :: "'f \<Rightarrow> string \<Rightarrow> 'f prototype \<Rightarrow> (error + bool) \<times> 'f prototype"
  object_or_null :: "'f \<Rightarrow> bool"
  set_prototype :: "'f \<Rightarrow> (string \<times> 'f) list \<Rightarrow> 'f prototype \<Rightarrow> (error + unit) \<times> 'f prototype"

text \<open>
  Line 309, \<open>API.prototype.hasOwnProperty(key)\<close>: the method is looked up on \<open>API.prototype\<close>
  itself. Without an own property of that name it is the one inherited from
  \<open>Object.prototype\<close>, which tests the own properties.
\<close>

definition hasOwnProperty :: "'f runtime \<Rightarrow> 'f prototype \<Rightarrow> string \<Rightarrow> (error + bool) \<times> 'f prototype" where
  "hasOwnProperty R proto key =
     (case proto ''hasOwnProperty'' of
        None \<Rightarrow> (Inr (proto key \<noteq> None), proto)
      | Some h \<Rightarrow> call_hasOwnProperty R h key proto)"

text \<open>
  Lines 307 to 314. The assignment of line 312 makes or replaces an own property, except
  for the name \<open>__proto__\<close> when it is not an own property: that assignment goes to the
  inherited setter, which makes no own property and ignores a value that is neither an
  object nor \<open>null\<close>.
\<close>

fun mixin :: "'f runtime \<Rightarrow> (string \<times> 'f) list \<Rightarrow> 'f prototype \<Rightarrow> (error + unit) \<times> 'f prototype" where
  "mixin R [] proto = (Inr (), proto)"
| "mixin R ((key, f) # obj) proto =
     (case hasOwnProperty R proto key of
        (Inl e, proto1) \<Rightarrow> (Inl e, proto1)
      | (Inr found, proto1) \<Rightarrow>
          if found then (Inl (OverrideError key), proto1)
          else if key = ''__proto__'' \<and> proto1 ''__proto__'' = None
          then (if object_or_null R f then set_prototype R f obj proto1 else mixin R obj proto1)
          else mixin R obj (proto1(key \<mapsto> f)))"

text \<open>The own properties of \<open>API.prototype\<close> that the class body declares.\<close>

datatype 'f member = Own string | Mixed 'f

definition API_prototype :: "'f member prototype" where
  "API_prototype =
     map_of (map (\<lambda>key. (key, Own key))
       [''constructor'', ''setOpts'', ''request'', ''getAccessToken'', ''getAccessTokenFromWeixin'',
        ''ensureAccessToken'', ''checkWeixinServerGetSignature'', ''decryptDataForMiniProgram'',
        ''getPhoneNumberForMiniProgram''])"

section \<open>Derived notions and example inputs\<close>

text \<open>Lines 107 to 123 of \<open>request\<close> in one step: the options are merged and the call is made.\<close>

definition transmit :: "string \<Rightarrow> options option \<Rightarrow> 's mem \<Rightarrow> (error + response) \<times> 's mem" where
  "transmit url opts m = (case merge_options opts m of (options, m1) \<Rightarrow> httpx_request url options m1)"

text \<open>
  Stand-ins for the collaborators, for running the model on concrete responses: a parser
  that knows five bodies, a sanitizer that changes nothing, and a url library that keeps
  the url as it is.
\<close>

definition example_parse :: "string \<Rightarrow> json option" where
  \<open>example_parse s =
     (if s = ''{"errcode":40001,"errmsg":"invalid credential"}''
      then Some (JObj [(''errcode'', JNum 40001), (''errmsg'', JStr ''invalid credential'')])
      else if s = ''{"errcode":42001,"errmsg":"access_token expired"}''
      then Some (JObj [(''errcode'', JNum 42001), (''errmsg'', JStr ''access_token expired'')])
      else if s = ''{"errcode":41001,"errmsg":"access_token missing"}''
      then Some (JObj [(''errcode'', JNum 41001), (''errmsg'', JStr ''access_token missing'')])
      else if s = ''{"access_token":"T1","expires_in":7200}''
      then Some (JObj [(''access_token'', JStr ''T1''), (''expires_in'', JNum 7200)])
      else if s = ''{"total":2}''
      then Some (JObj [(''total'', JNum 2)])
      else None)\<close>

definition example_libs :: libs where
  "example_libs =
     \<lparr>replaceJSONCtlChars = (\<lambda>s. s), JSONbig_parse = example_parse,
      liburl_parse = (\<lambda>u. \<lparr>query = [], search = None, rest = u\<rparr>), liburl_format = rest\<rparr>"

definition example_response :: "int \<Rightarrow> string \<Rightarrow> string \<Rightarrow> response" where
  "example_response status ctype text = \<lparr>statusCode = status, content_type = Some ctype, body = Some text\<rparr>"

text \<open>
  A runtime for running \<open>mixin\<close> on concrete tables whose values are plain data: a value
  called as \<open>hasOwnProperty\<close> is not a function, and none is an object or \<open>null\<close>.
\<close>

definition example_runtime :: "'f runtime" where
  "example_runtime =
     \<lparr>call_hasOwnProperty =
        (\<lambda>h key proto. (Inl (External ''TypeError: API.prototype.hasOwnProperty is not a function''), proto)),
      object_or_null = (\<lambda>v. False),
      set_prototype = (\<lambda>v rest proto. (Inr (), proto))\<rparr>"








section \<open>Lemmas about request\<close>

text \<open>
  \<open>getAccessToken\<close> always throws, so the recursive call of \<open>request\<close> is never reached and
  \<open>request\<close> has a closed form.
\<close>

lemma request_unfold:
  "request this L url opts retry m =
     (case transmit url opts m of
            (Inl e, m2) \<Rightarrow> (Inl e, m2)
          | (Inr res, m2) \<Rightarrow>
              if statusCode res < 200 \<or> statusCode res > 204
              then (Inl (StatusError url (statusCode res)), m2)
              else
                (case body res of
                   None \<Rightarrow> (Inl (External ''httpx.read''), m2)
                 | Some buffer \<Rightarrow>
                     if str_includes (case content_type res of None \<Rightarrow> [] | Some t \<Rightarrow> t) ''application/json''
                        \<or> str_includes (case content_type res of None \<Rightarrow> [] | Some t \<Rightarrow> t) ''text/plain''
                        then
                          (case JSONbig_parse L (replaceJSONCtlChars L buffer) of
                             None \<Rightarrow>
                               if str_includes (case content_type res of None \<Rightarrow> [] | Some t \<Rightarrow> t) ''text/plain''
                               then (Inr (Origin buffer), m2)
                               else (Inl (ParseError buffer), m2)
                           | Some data \<Rightarrow>
                               (case (if truthy data then field data ''errcode'' else None) of
                                  None \<Rightarrow> (Inr (Data data), m2)
                                | Some code \<Rightarrow>
                                    if truthy code
                                    then
                                      if (code = JNum 40001 \<or> code = JNum 42001)
                                         \<and> (case retry of None \<Rightarrow> 3 | Some r \<Rightarrow> r) > 0 \<and> \<not> tokenFromCustom this
                                      then
                                        (case call_saveToken this None m2 of
                                           (Inl e, m3) \<Rightarrow> (Inl e, m3)
                                         | (Inr u, m3) \<Rightarrow> (Inl SuperCantSetToken, m3))
                                      else (Inl (APIError code (field data ''errmsg'')), m2)
                                    else (Inr (Data data), m2)))
                        else (Inr (Buffer buffer), m2)))"
  by (subst request.simps, cases "merge_options opts m")
     (simp add: getAccessToken_def Let_def transmit_def
        cong: if_cong option.case_cong sum.case_cong prod.case_cong)

lemma merge_options_frame:
  "store (snd (merge_options opts m)) = store m"
  "defaults (snd (merge_options opts m)) = defaults m"
  "responses (snd (merge_options opts m)) = responses m"
  "sent_log (snd (merge_options opts m)) = sent_log m"
  "now (snd (merge_options opts m)) = now m"
  by (simp_all add: merge_options_def Let_def split: hval.splits)

lemma transmit_frame:
  "store (snd (transmit url opts m)) = store m"
  "defaults (snd (transmit url opts m)) = defaults m"
  "heap (snd (transmit url opts m)) = heap (snd (merge_options opts m))"
  "responses (snd (transmit url opts m)) = tl (responses m)"
  "now (snd (transmit url opts m)) = now m"
  "sent_log (snd (transmit url opts m)) =
     sent_log m @
       [\<lparr>s_url = url, s_options = fst (merge_options opts m),
         s_headers = (case headers (fst (merge_options opts m)) of
                        HObj a \<Rightarrow> Some (deref (heap (snd (merge_options opts m))) a)
                      | _ \<Rightarrow> None)\<rparr>]"
proof -
  obtain options m1 where mo: "merge_options opts m = (options, m1)"
    by force
  have m1: "store m1 = store m" "defaults m1 = defaults m" "responses m1 = responses m"
      "sent_log m1 = sent_log m" "now m1 = now m"
    using merge_options_frame [of opts m] mo by simp_all
  have t: "transmit url opts m = httpx_request url options m1"
    by (simp add: transmit_def mo)
  show "store (snd (transmit url opts m)) = store m"
    by (simp add: t httpx_request_def Let_def m1 split: list.splits)
  show "defaults (snd (transmit url opts m)) = defaults m"
    by (simp add: t httpx_request_def Let_def m1 split: list.splits)
  show "heap (snd (transmit url opts m)) = heap (snd (merge_options opts m))"
    by (simp add: t httpx_request_def Let_def mo split: list.splits)
  show "responses (snd (transmit url opts m)) = tl (responses m)"
    by (simp add: t httpx_request_def Let_def m1 split: list.splits)
  show "now (snd (transmit url opts m)) = now m"
    by (simp add: t httpx_request_def Let_def m1 split: list.splits)
  show "sent_log (snd (transmit url opts m)) =
     sent_log m @
       [\<lparr>s_url = url, s_options = fst (merge_options opts m),
         s_headers = (case headers (fst (merge_options opts m)) of
                        HObj a \<Rightarrow> Some (deref (heap (snd (merge_options opts m))) a)
                      | _ \<Rightarrow> None)\<rparr>]"
    by (simp add: t httpx_request_def Let_def m1 mo split: list.splits cong: hval.case_cong)
qed

lemma transmit_result:
  "fst (transmit url opts m) =
     (case responses m of [] \<Rightarrow> Inl (External ''httpx.request'') | res # rs \<Rightarrow> Inr res)"
proof -
  obtain options m1 where mo: "merge_options opts m = (options, m1)"
    by force
  have "responses m1 = responses m"
    using merge_options_frame [of opts m] mo by simp
  then show ?thesis
    by (simp add: transmit_def httpx_request_def Let_def mo split: list.splits)
qed

lemma request_state:
  "\<exists>s. snd (request this L url opts retry m) = (snd (transmit url opts m))\<lparr>store := s\<rparr>"
proof -
  have keep: "\<exists>s. m2 = m2\<lparr>store := s\<rparr>" for m2 :: "'s mem"
    by (rule exI[of _ "store m2"]) simp
  have upd: "\<exists>s. m2\<lparr>store := t\<rparr> = m2\<lparr>store := s\<rparr>" for m2 :: "'s mem" and t
    by blast
  show ?thesis
    by (cases "transmit url opts m")
       (auto simp: request_unfold call_saveToken_def keep upd
          split: sum.splits option.splits prod.splits if_splits)
qed

lemma merge_options_responses:
  "merge_options opts (m\<lparr>responses := X\<rparr>) =
     (fst (merge_options opts m), (snd (merge_options opts m))\<lparr>responses := X\<rparr>)"
  by (simp add: merge_options_def Let_def split: hval.splits)

lemma transmit_cons:
  assumes "responses m = res # rs"
  shows "transmit url opts m = (Inr res, snd (transmit url opts m))"
  using transmit_result [of url opts m] assms
  by (cases "transmit url opts m") simp

lemma transmit_responses:
  "snd (transmit url opts (m\<lparr>responses := r # rs\<rparr>)) = (snd (transmit url opts m))\<lparr>responses := rs\<rparr>"
  by (cases "merge_options opts m")
     (simp add: transmit_def merge_options_responses httpx_request_def Let_def
        split: list.splits cong: hval.case_cong)

lemma request_ok_body:
  assumes "responses m = res # rs"
    and "200 \<le> statusCode res" and "statusCode res \<le> 204"
    and "body res = Some buffer"
    and "contentType = (case content_type res of None \<Rightarrow> [] | Some t \<Rightarrow> t)"
  shows "request this L url opts retry m =
     (if str_includes contentType ''application/json'' \<or> str_includes contentType ''text/plain''
      then
        (case JSONbig_parse L (replaceJSONCtlChars L buffer) of
           None \<Rightarrow>
             if str_includes contentType ''text/plain''
             then (Inr (Origin buffer), snd (transmit url opts m))
             else (Inl (ParseError buffer), snd (transmit url opts m))
         | Some data \<Rightarrow>
             (case (if truthy data then field data ''errcode'' else None) of
                None \<Rightarrow> (Inr (Data data), snd (transmit url opts m))
              | Some code \<Rightarrow>
                  if truthy code
                  then
                    if (code = JNum 40001 \<or> code = JNum 42001)
                       \<and> (case retry of None \<Rightarrow> 3 | Some r \<Rightarrow> r) > 0 \<and> \<not> tokenFromCustom this
                    then
                      (case call_saveToken this None (snd (transmit url opts m)) of
                         (Inl e, m3) \<Rightarrow> (Inl e, m3)
                       | (Inr u, m3) \<Rightarrow> (Inl SuperCantSetToken, m3))
                    else (Inl (APIError code (field data ''errmsg'')), snd (transmit url opts m))
                  else (Inr (Data data), snd (transmit url opts m))))
      else (Inr (Buffer buffer), snd (transmit url opts m)))"
proof -
  have t: "transmit url opts m = (Inr res, snd (transmit url opts m))"
    by (rule transmit_cons [OF assms(1)])
  have ok: "\<not> (statusCode res < 200 \<or> 204 < statusCode res)"
    using assms(2,3) by simp
  show ?thesis
    by (subst request_unfold, subst t) (simp add: ok assms(4) assms(5) [symmetric])
qed

lemma request_frame:
  "defaults (snd (request this L url opts retry m)) = defaults m"
  "heap (snd (request this L url opts retry m)) = heap (snd (merge_options opts m))"
  "responses (snd (request this L url opts retry m)) = tl (responses m)"
  "now (snd (request this L url opts retry m)) = now m"
  "sent_log (snd (request this L url opts retry m)) = sent_log (snd (transmit url opts m))"
proof -
  obtain s where s: "snd (request this L url opts retry m) = (snd (transmit url opts m))\<lparr>store := s\<rparr>"
    using request_state [of this L url opts retry m] by (elim exE)
  show "defaults (snd (request this L url opts retry m)) = defaults m"
    by (simp add: s transmit_frame)
  show "heap (snd (request this L url opts retry m)) = heap (snd (merge_options opts m))"
    by (simp add: s transmit_frame)
  show "responses (snd (request this L url opts retry m)) = tl (responses m)"
    by (simp add: s transmit_frame)
  show "now (snd (request this L url opts retry m)) = now m"
    by (simp add: s transmit_frame)
  show "sent_log (snd (request this L url opts retry m)) = sent_log (snd (transmit url opts m))"
    by (simp add: s)
qed

lemma map_of_set_prop: "map_of (set_prop key v t) = (map_of t)(key \<mapsto> v)"
  by (induction t) auto

lemma map_of_assign_other:
  "key \<notin> fst ` set src \<Longrightarrow> map_of (Object_assign t src) key = map_of t key"
  unfolding Object_assign_def
  by (induction src arbitrary: t) (auto simp: map_of_set_prop)

lemma map_of_assign_entry:
  "distinct (map fst src) \<Longrightarrow> (key, v) \<in> set src \<Longrightarrow> map_of (Object_assign t src) key = Some v"
proof (induction src arbitrary: t)
  case Nil
  then show ?case by simp
next
  case (Cons kv src)
  obtain k w where kv: "kv = (k, w)" by (cases kv)
  have step: "Object_assign t (kv # src) = Object_assign (set_prop k w t) src"
    by (simp add: Object_assign_def kv)
  show ?case
  proof (cases "(key, v) \<in> set src")
    case True
    with Cons show ?thesis by (simp add: step)
  next
    case False
    with Cons.prems have eq: "k = key" "w = v" and fresh: "key \<notin> fst ` set src"
      by (auto simp: kv)
    show ?thesis
      by (simp add: step map_of_assign_other [OF fresh] map_of_set_prop eq)
  qed
qed

lemma merge_options_alias:
  assumes "headers (defaults m) = HObj a" and "headers given = HObj b"
  shows "merge_options (Some given) m =
     (\<lparr>headers = HObj a, others = Object_assign (others (defaults m)) (others given)\<rparr>,
      m\<lparr>heap := (heap m)[a := Object_assign (deref (heap m) a) (deref (heap m) b)]\<rparr>)"
  by (simp add: merge_options_def assms)

lemma merge_options_plain:
  assumes "(case opts of None \<Rightarrow> HAbsent | Some given \<Rightarrow> headers given) \<in> {HAbsent, HFalsy}"
  shows "headers (fst (merge_options opts m)) = headers (defaults m)"
    and "heap (snd (merge_options opts m)) = heap m"
  using assms by (auto simp: merge_options_def Let_def split: option.splits hval.splits)

lemma mixin_append:
  "distinct (map fst pre) \<Longrightarrow> \<forall>k \<in> fst ` set pre. proto k = None
   \<Longrightarrow> ''hasOwnProperty'' \<notin> fst ` set pre \<Longrightarrow> ''__proto__'' \<notin> fst ` set pre
   \<Longrightarrow> proto ''hasOwnProperty'' = None
   \<Longrightarrow> mixin R (pre @ obj) proto = mixin R obj (proto ++ map_of pre)"
proof (induction pre arbitrary: proto)
  case Nil
  then show ?case by simp
next
  case (Cons kf pre)
  obtain k f where kf: "kf = (k, f)" by (cases kf)
  from Cons.prems have fresh: "k \<notin> fst ` set pre" and none: "proto k = None"
    and names: "k \<noteq> ''hasOwnProperty''" "k \<noteq> ''__proto__''"
    by (auto simp: kf)
  have "mixin R ((kf # pre) @ obj) proto = mixin R (pre @ obj) (proto(k \<mapsto> f))"
    using Cons.prems(5) by (simp add: kf none names hasOwnProperty_def)
  also have "\<dots> = mixin R obj (proto(k \<mapsto> f) ++ map_of pre)"
    using Cons.prems fresh names by (intro Cons.IH) (auto simp: kf)
  also have "proto(k \<mapsto> f) ++ map_of pre = proto ++ map_of (kf # pre)"
  proof -
    have "k \<notin> dom (map_of pre)"
      using fresh by (simp add: dom_map_of_conv_image_fst)
    then show ?thesis
      by (simp add: kf map_add_upd_left)
  qed
  finally show ?case .
qed

text \<open>
  Once \<open>hasOwnProperty\<close> has been mixed in, line 309 asks the mixed-in value: when it answers
  with a falsy value, a name that is already there is replaced without an error.
\<close>

lemma mixin_replaced_hasOwnProperty:
  assumes "proto ''hasOwnProperty'' = None" and "key \<noteq> ''__proto__''"
    and "call_hasOwnProperty R h key (proto(''hasOwnProperty'' \<mapsto> h)) = (Inr False, proto(''hasOwnProperty'' \<mapsto> h))"
  shows "mixin R [(''hasOwnProperty'', h), (key, f)] proto
    = (Inr (), proto(''hasOwnProperty'' \<mapsto> h, key \<mapsto> f))"
  using assms by (simp add: hasOwnProperty_def)

text \<open>
  A value under the name \<open>__proto__\<close> that is neither an object nor \<open>null\<close> leaves no own
  property behind.
\<close>

lemma mixin_proto_name:
  assumes "proto ''hasOwnProperty'' = None" and "proto ''__proto__'' = None"
    and "\<not> object_or_null R v"
  shows "mixin R ((''__proto__'', v) # obj) proto = mixin R obj proto"
  using assms by (simp add: hasOwnProperty_def)

lemma ensureAccessToken_fails:
  assumes "getToken this (store m) = (Inr token, s')"
    and "case token of None \<Rightarrow> True | Some t \<Rightarrow> \<not> isValid t (now m)"
  shows "ensureAccessToken this m =
    (Inl (if tokenFromCustom this then AccessTokenError else CantSetToken), m\<lparr>store := s'\<rparr>)"
  using assms
  by (auto simp: ensureAccessToken_def call_getToken_def isValid_def Let_def split: option.splits)

text \<open>The same closed form with the overriding method: the recursive call stays.\<close>

lemma request_dispatch_unfold:
  "request_dispatch acquire this L url opts retry m =
     (case transmit url opts m of
            (Inl e, m2) \<Rightarrow> (Inl e, m2)
          | (Inr res, m2) \<Rightarrow>
              if statusCode res < 200 \<or> statusCode res > 204
              then (Inl (StatusError url (statusCode res)), m2)
              else
                (case body res of
                   None \<Rightarrow> (Inl (External ''httpx.read''), m2)
                 | Some buffer \<Rightarrow>
                     if str_includes (case content_type res of None \<Rightarrow> [] | Some t \<Rightarrow> t) ''application/json''
                        \<or> str_includes (case content_type res of None \<Rightarrow> [] | Some t \<Rightarrow> t) ''text/plain''
                        then
                          (case JSONbig_parse L (replaceJSONCtlChars L buffer) of
                             None \<Rightarrow>
                               if str_includes (case content_type res of None \<Rightarrow> [] | Some t \<Rightarrow> t) ''text/plain''
                               then (Inr (Origin buffer), m2)
                               else (Inl (ParseError buffer), m2)
                           | Some data \<Rightarrow>
                               (case (if truthy data then field data ''errcode'' else None) of
                                  None \<Rightarrow> (Inr (Data data), m2)
                                | Some code \<Rightarrow>
                                    if truthy code
                                    then
                                      if (code = JNum 40001 \<or> code = JNum 42001)
                                         \<and> (case retry of None \<Rightarrow> 3 | Some r \<Rightarrow> r) > 0 \<and> \<not> tokenFromCustom this
                                      then
                                        (case call_saveToken this None m2 of
                                           (Inl e, m3) \<Rightarrow> (Inl e, m3)
                                         | (Inr u, m3) \<Rightarrow>
                                             (case acquire this m3 of
                                                (Inl e, m4) \<Rightarrow> (Inl e, m4)
                                              | (Inr token, m4) \<Rightarrow>
                                                  request_dispatch acquire this L (retry_url L url token)
                                                    (Some (case opts of None \<Rightarrow> \<lparr>headers = HAbsent, others = []\<rparr> | Some given \<Rightarrow> given))
                                                    (Some ((case retry of None \<Rightarrow> 3 | Some r \<Rightarrow> r) - 1)) m4))
                                      else (Inl (APIError code (field data ''errmsg'')), m2)
                                    else (Inr (Data data), m2)))
                        else (Inr (Buffer buffer), m2)))"
  by (subst request_dispatch.simps, cases "merge_options opts m")
     (simp add: Let_def transmit_def
        cong: if_cong option.case_cong sum.case_cong prod.case_cong)

lemma request_dispatch_API:
  "request_dispatch getAccessToken this L url opts retry m = request this L url opts retry m"
  by (subst request_dispatch_unfold, subst request_unfold)
     (simp add: getAccessToken_def cong: if_cong option.case_cong sum.case_cong prod.case_cong)



lemmas eval_request =
  request_unfold transmit_def merge_options_def httpx_request_def Object_assign_def deref_def
  call_saveToken_def call_getToken_def default_saveToken_def default_getToken_def
  API_def API_mem_def example_libs_def example_parse_def example_response_def Let_def


section \<open>Theorems\<close>

text \<open>
  C1. For a call of \<open>request\<close> whose parsed body carries a truthy \<open>errcode\<close>: exactly when
  the code is 40001 or 42001, the retry budget (3 when not given) is positive and
  \<open>tokenFromCustom\<close> is falsy, \<open>request\<close> calls \<open>saveToken(null)\<close> and then \<open>getAccessToken\<close>,
  which throws, so the call ends with the error of \<open>saveToken\<close> or with
  \<open>Error('super can\'t set access token')\<close> and never reaches the url rewrite or the recursive
  call. In every other case the WeChatAPIError with that code and message is raised at once,
  in the state right after the single HTTP call. Either way exactly one HTTP call is made:
  the number of retries is zero, whatever the budget.
\<close>

theorem request_errcode:
  assumes "responses m = res # rs"
    and "200 \<le> statusCode res" and "statusCode res \<le> 204"
    and "body res = Some buffer"
    and "contentType = (case content_type res of None \<Rightarrow> [] | Some t \<Rightarrow> t)"
    and "str_includes contentType ''application/json'' \<or> str_includes contentType ''text/plain''"
    and "JSONbig_parse L (replaceJSONCtlChars L buffer) = Some data"
    and "truthy data" and "field data ''errcode'' = Some code" and "truthy code"
  shows
    "request this L url opts retry m =
       (if (code = JNum 40001 \<or> code = JNum 42001)
           \<and> 0 < (case retry of None \<Rightarrow> 3 | Some r \<Rightarrow> r) \<and> \<not> tokenFromCustom this
        then (case call_saveToken this None (snd (transmit url opts m)) of
                (Inl e, m3) \<Rightarrow> (Inl e, m3)
              | (Inr u, m3) \<Rightarrow> (Inl SuperCantSetToken, m3))
        else (Inl (APIError code (field data ''errmsg'')), snd (transmit url opts m)))
     \<and> length (sent_log (snd (request this L url opts retry m))) = length (sent_log m) + 1"
proof -
  have "request this L url opts retry m =
       (if (code = JNum 40001 \<or> code = JNum 42001)
           \<and> 0 < (case retry of None \<Rightarrow> 3 | Some r \<Rightarrow> r) \<and> \<not> tokenFromCustom this
        then (case call_saveToken this None (snd (transmit url opts m)) of
                (Inl e, m3) \<Rightarrow> (Inl e, m3)
              | (Inr u, m3) \<Rightarrow> (Inl SuperCantSetToken, m3))
        else (Inl (APIError code (field data ''errmsg'')), snd (transmit url opts m)))"
    using assms(6-10) by (subst request_ok_body [OF assms(1-5)]) simp
  moreover have "length (sent_log (snd (request this L url opts retry m))) = length (sent_log m) + 1"
    by (simp add: request_frame transmit_frame)
  ultimately show ?thesis by simp
qed

theorem request_errcode_witness:
  \<open>request (API ''wx0'' ''secret'' None None False) example_libs ''u'' None (Some 3)
      (API_mem () [example_response 200 ''application/json'' ''{"errcode":41001,"errmsg":"access_token missing"}''] 0)
    = (Inl (APIError (JNum 41001) (Some (JStr ''access_token missing''))),
       snd (transmit ''u'' None
         (API_mem () [example_response 200 ''application/json'' ''{"errcode":41001,"errmsg":"access_token missing"}''] 0)))
   \<and> request (API ''wx0'' ''secret'' None None False) example_libs ''u'' None (Some 0)
      (API_mem () [example_response 200 ''application/json'' ''{"errcode":40001,"errmsg":"invalid credential"}''] 0)
    = (Inl (APIError (JNum 40001) (Some (JStr ''invalid credential''))),
       snd (transmit ''u'' None
         (API_mem () [example_response 200 ''application/json'' ''{"errcode":40001,"errmsg":"invalid credential"}''] 0)))
   \<and> request (API ''wx0'' ''secret'' None None True) example_libs ''u'' None (Some 3)
      (API_mem () [example_response 200 ''application/json'' ''{"errcode":42001,"errmsg":"access_token expired"}''] 0)
    = (Inl (APIError (JNum 42001) (Some (JStr ''access_token expired''))),
       snd (transmit ''u'' None
         (API_mem () [example_response 200 ''application/json'' ''{"errcode":42001,"errmsg":"access_token expired"}''] 0)))
   \<and> fst (request (API ''wx0'' ''secret'' None None False) example_libs ''u'' None None
      (API_mem () [example_response 200 ''application/json'' ''{"errcode":42001,"errmsg":"access_token expired"}''] 0))
    = Inl SuperCantSetToken\<close>
  using
    request_errcode
      [where m = \<open>API_mem () [example_response 200 ''application/json'' ''{"errcode":41001,"errmsg":"access_token missing"}''] 0\<close>
         and res = \<open>example_response 200 ''application/json'' ''{"errcode":41001,"errmsg":"access_token missing"}''\<close>
         and rs = "[]" and buffer = \<open>''{"errcode":41001,"errmsg":"access_token missing"}''\<close>
         and contentType = "''application/json''"
         and data = "JObj [(''errcode'', JNum 41001), (''errmsg'', JStr ''access_token missing'')]"
         and code = "JNum 41001"
         and this = "API ''wx0'' ''secret'' None None False" and L = example_libs
         and url = "''u''" and opts = None and retry = "Some 3"]
    request_errcode
      [where m = \<open>API_mem () [example_response 200 ''application/json'' ''{"errcode":40001,"errmsg":"invalid credential"}''] 0\<close>
         and res = \<open>example_response 200 ''application/json'' ''{"errcode":40001,"errmsg":"invalid credential"}''\<close>
         and rs = "[]" and buffer = \<open>''{"errcode":40001,"errmsg":"invalid credential"}''\<close>
         and contentType = "''application/json''"
         and data = "JObj [(''errcode'', JNum 40001), (''errmsg'', JStr ''invalid credential'')]"
         and code = "JNum 40001"
         and this = "API ''wx0'' ''secret'' None None False" and L = example_libs
         and url = "''u''" and opts = None and retry = "Some 0"]
    request_errcode
      [where m = \<open>API_mem () [example_response 200 ''application/json'' ''{"errcode":42001,"errmsg":"access_token expired"}''] 0\<close>
         and res = \<open>example_response 200 ''application/json'' ''{"errcode":42001,"errmsg":"access_token expired"}''\<close>
         and rs = "[]" and buffer = \<open>''{"errcode":42001,"errmsg":"access_token expired"}''\<close>
         and contentType = "''application/json''"
         and data = "JObj [(''errcode'', JNum 42001), (''errmsg'', JStr ''access_token expired'')]"
         and code = "JNum 42001"
         and this = "API ''wx0'' ''secret'' None None True" and L = example_libs
         and url = "''u''" and opts = None and retry = "Some 3"]
    request_errcode
      [where m = \<open>API_mem () [example_response 200 ''application/json'' ''{"errcode":42001,"errmsg":"access_token expired"}''] 0\<close>
         and res = \<open>example_response 200 ''application/json'' ''{"errcode":42001,"errmsg":"access_token expired"}''\<close>
         and rs = "[]" and buffer = \<open>''{"errcode":42001,"errmsg":"access_token expired"}''\<close>
         and contentType = "''application/json''"
         and data = "JObj [(''errcode'', JNum 42001), (''errmsg'', JStr ''access_token expired'')]"
         and code = "JNum 42001"
         and this = "API ''wx0'' ''secret'' None None False" and L = example_libs
         and url = "''u''" and opts = None and retry = None]
  by (simp add: API_mem_def example_response_def example_libs_def example_parse_def API_def
       call_saveToken_def default_saveToken_def transmit_frame)

theorem request_no_retry_counterexample:
  \<open>fst (request (API ''wx0'' ''secret'' None None False) example_libs
          ''https://api.weixin.qq.com/cgi-bin/user/get?access_token=T0'' None (Some 3)
          (API_mem ()
            [example_response 200 ''application/json; encoding=utf-8'' ''{"errcode":40001,"errmsg":"invalid credential"}'',
             example_response 200 ''application/json; encoding=utf-8'' ''{"total":2}''] 0))
     = Inl SuperCantSetToken
   \<and> length (sent_log (snd (request (API ''wx0'' ''secret'' None None False) example_libs
          ''https://api.weixin.qq.com/cgi-bin/user/get?access_token=T0'' None (Some 3)
          (API_mem ()
            [example_response 200 ''application/json; encoding=utf-8'' ''{"errcode":40001,"errmsg":"invalid credential"}'',
             example_response 200 ''application/json; encoding=utf-8'' ''{"total":2}''] 0)))) = 1
   \<and> responses (snd (request (API ''wx0'' ''secret'' None None False) example_libs
          ''https://api.weixin.qq.com/cgi-bin/user/get?access_token=T0'' None (Some 3)
          (API_mem ()
            [example_response 200 ''application/json; encoding=utf-8'' ''{"errcode":40001,"errmsg":"invalid credential"}'',
             example_response 200 ''application/json; encoding=utf-8'' ''{"total":2}''] 0)))
     = [example_response 200 ''application/json; encoding=utf-8'' ''{"total":2}'']\<close>
  by (simp add: eval_request)

text \<open>
  C2. \<open>mixin\<close> checks and installs the names one at a time, in the order of enumeration.
  Take a table without own properties \<open>hasOwnProperty\<close> and \<open>__proto__\<close>, and a set whose
  names before the first one already on the table do not include these two. Then the Error
  naming that first colliding name is raised; the names enumerated before it have been
  installed and stay installed, every other name has the entry it had before (the colliding
  name keeps its implementation, later names are not installed). The table is the one before
  the call only when the colliding name comes first.
\<close>

theorem mixin_collision:
  assumes "distinct (map fst pre)"
    and "\<forall>k \<in> fst ` set pre. proto k = None"
    and "proto key \<noteq> None"
    and "''hasOwnProperty'' \<notin> fst ` set pre" and "''__proto__'' \<notin> fst ` set pre"
    and "proto ''hasOwnProperty'' = None" and "proto ''__proto__'' = None"
  shows
    "mixin R (pre @ (key, f) # post) proto = (Inl (OverrideError key), proto ++ map_of pre)
     \<and> (\<forall>(k, g) \<in> set pre. snd (mixin R (pre @ (key, f) # post) proto) k = Some g)
     \<and> (\<forall>k. k \<notin> fst ` set pre \<longrightarrow> snd (mixin R (pre @ (key, f) # post) proto) k = proto k)
     \<and> (pre = [] \<longrightarrow> snd (mixin R (pre @ (key, f) # post) proto) = proto)"
proof -
  have fresh: "key \<notin> fst ` set pre"
    using assms(2,3) by auto
  have keep: "(proto ++ map_of pre) k = proto k" if "k \<notin> fst ` set pre" for k
    using that by (simp add: map_add_dom_app_simps dom_map_of_conv_image_fst)
  have h: "(proto ++ map_of pre) ''hasOwnProperty'' = None"
    unfolding keep [OF assms(4)] by (rule assms(6))
  have k: "(proto ++ map_of pre) key \<noteq> None"
    unfolding keep [OF fresh] by (rule assms(3))
  have "hasOwnProperty R q key = (Inr True, q)"
    if "q ''hasOwnProperty'' = None" and "q key \<noteq> None" for q
    using that by (simp add: hasOwnProperty_def)
  from this [OF h k] have r: "mixin R (pre @ (key, f) # post) proto = (Inl (OverrideError key), proto ++ map_of pre)"
    by (simp add: mixin_append [OF assms(1,2,4,5,6)])
  have inst: "(proto ++ map_of pre) k = Some g" if "(k, g) \<in> set pre" for k g
    using that assms(1) by (simp add: map_add_Some_iff)
  from r inst keep show ?thesis
    by auto
qed

theorem mixin_collision_witness:
  "mixin example_runtime
     ([(''uploadMedia'', Mixed (1::nat)), (''getMedia'', Mixed 2)] @ (''request'', Mixed 3) # [(''sendText'', Mixed 4)])
     API_prototype
     = (Inl (OverrideError ''request''),
        API_prototype ++ map_of [(''uploadMedia'', Mixed (1::nat)), (''getMedia'', Mixed 2)])"
  using mixin_collision
    [where pre = "[(''uploadMedia'', Mixed (1::nat)), (''getMedia'', Mixed 2)]" and proto = API_prototype
       and key = "''request''" and f = "Mixed 3" and post = "[(''sendText'', Mixed 4)]"
       and R = example_runtime]
  by (simp add: API_prototype_def)

theorem mixin_not_atomic_counterexample:
  "fst (mixin example_runtime [(''uploadMedia'', Mixed (1::nat)), (''request'', Mixed 2)] API_prototype)
     = Inl (OverrideError ''request'')
   \<and> snd (mixin example_runtime [(''uploadMedia'', Mixed (1::nat)), (''request'', Mixed 2)] API_prototype) ''uploadMedia''
     = Some (Mixed 1)
   \<and> (API_prototype :: nat member prototype) ''uploadMedia'' = None
   \<and> snd (mixin example_runtime [(''uploadMedia'', Mixed (1::nat)), (''request'', Mixed 2)] API_prototype)
     \<noteq> API_prototype"
proof -
  have a: "fst (mixin example_runtime [(''uploadMedia'', Mixed (1::nat)), (''request'', Mixed 2)] API_prototype)
      = Inl (OverrideError ''request'')"
    by (simp add: API_prototype_def hasOwnProperty_def)
  have b: "snd (mixin example_runtime [(''uploadMedia'', Mixed (1::nat)), (''request'', Mixed 2)] API_prototype) ''uploadMedia''
      = Some (Mixed 1)"
    by (simp add: API_prototype_def hasOwnProperty_def)
  have c: "(API_prototype :: nat member prototype) ''uploadMedia'' = None"
    by (simp add: API_prototype_def)
  from b c have "snd (mixin example_runtime [(''uploadMedia'', Mixed (1::nat)), (''request'', Mixed 2)] API_prototype)
      \<noteq> API_prototype"
    by (metis option.distinct(1))
  with a b c show ?thesis by simp
qed

text \<open>
  C3. \<open>getAccessToken\<close> throws \<open>Error('super can\'t set access token')\<close> in its first
  statement, on every call: no authorization call is made, no AccessToken is built and
  \<open>saveToken\<close> is not called.
\<close>

theorem getAccessToken_throws:
  "getAccessToken this m = (Inl SuperCantSetToken, m)
   \<and> store (snd (getAccessToken this m)) = store m
   \<and> sent_log (snd (getAccessToken this m)) = sent_log m
   \<and> responses (snd (getAccessToken this m)) = responses m"
  by (simp add: getAccessToken_def)

theorem getAccessToken_counterexample:
  \<open>fst (getAccessToken (API ''wx0'' ''secret'' None None False)
          (API_mem () [example_response 200 ''application/json'' ''{"access_token":"T1","expires_in":7200}''] 1000))
     \<noteq> Inr \<lparr>accessToken = ''T1'', expireTime = 1000 + (7200 - 10) * 1000\<rparr>
   \<and> store (snd (getAccessToken (API ''wx0'' ''secret'' None None False)
          (API_mem () [example_response 200 ''application/json'' ''{"access_token":"T1","expires_in":7200}''] 1000)))
     = (None, ())
   \<and> sent_log (snd (getAccessToken (API ''wx0'' ''secret'' None None False)
          (API_mem () [example_response 200 ''application/json'' ''{"access_token":"T1","expires_in":7200}''] 1000)))
     = []\<close>
  by (simp add: getAccessToken_def API_mem_def)

text \<open>
  C4. When \<open>tokenFromCustom\<close> is falsy and \<open>getToken\<close> gives no token or one that is not
  valid, \<open>ensureAccessToken\<close> throws \<open>Error('can\'t set access token')\<close>; it does not call
  \<open>getAccessToken\<close> and makes no HTTP call.
\<close>

theorem ensureAccessToken_self_managed:
  assumes "\<not> tokenFromCustom this"
    and "getToken this (store m) = (Inr token, s')"
    and "case token of None \<Rightarrow> True | Some t \<Rightarrow> \<not> isValid t (now m)"
  shows
    "ensureAccessToken this m = (Inl CantSetToken, m\<lparr>store := s'\<rparr>)
     \<and> sent_log (snd (ensureAccessToken this m)) = sent_log m
     \<and> responses (snd (ensureAccessToken this m)) = responses m"
  using ensureAccessToken_fails [OF assms(2,3)] assms(1) by simp

theorem ensureAccessToken_self_managed_witness:
  "ensureAccessToken (API ''wx0'' ''secret'' None None False) (API_mem () [] 1000)
     = (Inl CantSetToken, API_mem () [] 1000)"
  using ensureAccessToken_self_managed
    [where this = "API ''wx0'' ''secret'' None None False" and m = "API_mem () [] 1000"
       and token = None and s' = "(None, ())"]
  by (simp add: API_def API_mem_def default_getToken_def)

theorem ensureAccessToken_self_managed_counterexample:
  \<open>fst (ensureAccessToken (API ''wx0'' ''secret'' None None False)
          (API_mem () [example_response 200 ''application/json'' ''{"access_token":"T1","expires_in":7200}''] 1000))
     = Inl CantSetToken
   \<and> sent_log (snd (ensureAccessToken (API ''wx0'' ''secret'' None None False)
          (API_mem () [example_response 200 ''application/json'' ''{"access_token":"T1","expires_in":7200}''] 1000)))
     = []
   \<and> fst (ensureAccessToken (API ''wx0'' ''secret'' None None False)
          ((API_mem () [example_response 200 ''application/json'' ''{"access_token":"T1","expires_in":7200}''] 1000)
             \<lparr>store := (Some \<lparr>accessToken = ''T0'', expireTime = 999\<rparr>, ())\<rparr>))
     = Inl CantSetToken\<close>
  by (simp add: ensureAccessToken_def call_getToken_def API_def API_mem_def default_getToken_def
       isValid_def truthy_string_def Let_def)

text \<open>
  C5. When \<open>tokenFromCustom\<close> is set and \<open>getToken\<close> gives no token or one that is not
  valid, \<open>ensureAccessToken\<close> throws the WeChatAPIError whose code is 40001, and makes no
  HTTP call.
\<close>

theorem ensureAccessToken_custom:
  assumes "tokenFromCustom this"
    and "getToken this (store m) = (Inr token, s')"
    and "case token of None \<Rightarrow> True | Some t \<Rightarrow> \<not> isValid t (now m)"
  shows
    "ensureAccessToken this m = (Inl AccessTokenError, m\<lparr>store := s'\<rparr>)
     \<and> (case fst (ensureAccessToken this m) of Inl e \<Rightarrow> err_code e | Inr t \<Rightarrow> None) = Some (JNum 40001)
     \<and> (case fst (ensureAccessToken this m) of Inl e \<Rightarrow> err_name e | Inr t \<Rightarrow> []) = ''WeChatAPIError''
     \<and> sent_log (snd (ensureAccessToken this m)) = sent_log m
     \<and> responses (snd (ensureAccessToken this m)) = responses m"
  using ensureAccessToken_fails [OF assms(2,3)] assms(1) by simp

theorem ensureAccessToken_custom_witness:
  "ensureAccessToken (API ''wx0'' ''secret'' None None True) (API_mem () [] 1000)
     = (Inl AccessTokenError, API_mem () [] 1000)
   \<and> ensureAccessToken (API ''wx0'' ''secret'' None None True)
       ((API_mem () [] 1000)\<lparr>store := (Some \<lparr>accessToken = ''T0'', expireTime = 1000\<rparr>, ())\<rparr>)
     = (Inl AccessTokenError,
        (API_mem () [] 1000)\<lparr>store := (Some \<lparr>accessToken = ''T0'', expireTime = 1000\<rparr>, ())\<rparr>)"
  using
    ensureAccessToken_custom
      [where this = "API ''wx0'' ''secret'' None None True" and m = "API_mem () [] 1000"
         and token = None and s' = "(None, ())"]
    ensureAccessToken_custom
      [where this = "API ''wx0'' ''secret'' None None True"
         and m = "(API_mem () [] 1000)\<lparr>store := (Some \<lparr>accessToken = ''T0'', expireTime = 1000\<rparr>, ())\<rparr>"
         and token = "Some \<lparr>accessToken = ''T0'', expireTime = 1000\<rparr>"
         and s' = "(Some \<lparr>accessToken = ''T0'', expireTime = 1000\<rparr>, ())"]
  by (simp add: API_def API_mem_def default_getToken_def isValid_def truthy_string_def)




text \<open>
  C7. For a response with a status in 200..204 and a readable body: when the content type
  includes application/json or text/plain, the body is parsed with \<open>JSONbig.parse\<close> after
  \<open>replaceJSONCtlChars\<close>, and the parsed data is returned when it carries no truthy
  \<open>errcode\<close>; when parsing fails and the content type includes text/plain, the text is
  returned; when parsing fails and the content type includes application/json but not
  text/plain, the WeChatAPIError embedding the payload is raised after the single call, with
  the token store untouched; for any other content type the buffer is returned as it is.
\<close>
theorem request_decoding:
  assumes "responses m = res # rs"
    and "200 \<le> statusCode res" and "statusCode res \<le> 204"
    and "body res = Some buffer"
    and "contentType = (case content_type res of None \<Rightarrow> [] | Some t \<Rightarrow> t)"
  shows
    "(\<forall>data. (str_includes contentType ''application/json'' \<or> str_includes contentType ''text/plain'')
         \<and> JSONbig_parse L (replaceJSONCtlChars L buffer) = Some data
         \<and> \<not> (truthy data \<and> (\<exists>code. field data ''errcode'' = Some code \<and> truthy code))
         \<longrightarrow> request this L url opts retry m = (Inr (Data data), snd (transmit url opts m)))
     \<and> (str_includes contentType ''text/plain''
         \<and> JSONbig_parse L (replaceJSONCtlChars L buffer) = None
         \<longrightarrow> request this L url opts retry m = (Inr (Origin buffer), snd (transmit url opts m)))
     \<and> (str_includes contentType ''application/json'' \<and> \<not> str_includes contentType ''text/plain''
         \<and> JSONbig_parse L (replaceJSONCtlChars L buffer) = None
         \<longrightarrow> request this L url opts retry m = (Inl (ParseError buffer), snd (transmit url opts m))
           \<and> map s_url (sent_log (snd (request this L url opts retry m))) = map s_url (sent_log m) @ [url]
           \<and> store (snd (request this L url opts retry m)) = store m)
     \<and> (\<not> str_includes contentType ''application/json'' \<and> \<not> str_includes contentType ''text/plain''
         \<longrightarrow> request this L url opts retry m = (Inr (Buffer buffer), snd (transmit url opts m)))"
proof -
  note u = request_ok_body [OF assms, of this L url opts retry]
  have A: "request this L url opts retry m = (Inr (Data data), snd (transmit url opts m))"
    if "str_includes contentType ''application/json'' \<or> str_includes contentType ''text/plain''"
      and "JSONbig_parse L (replaceJSONCtlChars L buffer) = Some data"
      and "\<not> (truthy data \<and> (\<exists>code. field data ''errcode'' = Some code \<and> truthy code))"
    for data
    using that by (auto simp: u split: option.splits)
  have B: "request this L url opts retry m = (Inr (Origin buffer), snd (transmit url opts m))"
    if "str_includes contentType ''text/plain''" and "JSONbig_parse L (replaceJSONCtlChars L buffer) = None"
    using that by (simp add: u)
  have C: "request this L url opts retry m = (Inl (ParseError buffer), snd (transmit url opts m))"
    if "str_includes contentType ''application/json''" and "\<not> str_includes contentType ''text/plain''"
      and "JSONbig_parse L (replaceJSONCtlChars L buffer) = None"
    using that by (simp add: u)
  have D: "request this L url opts retry m = (Inr (Buffer buffer), snd (transmit url opts m))"
    if "\<not> str_includes contentType ''application/json''" and "\<not> str_includes contentType ''text/plain''"
    using that by (simp add: u)
  from A B C D show ?thesis
    by (simp add: transmit_frame)
qed

theorem request_decoding_witness:
  \<open>request (API ''wx0'' ''secret'' None None False) example_libs ''u'' None None
      (API_mem () [example_response 200 ''application/json'' ''{"total":2}''] 0)
    = (Inr (Data (JObj [(''total'', JNum 2)])),
       snd (transmit ''u'' None (API_mem () [example_response 200 ''application/json'' ''{"total":2}''] 0)))
   \<and> request (API ''wx0'' ''secret'' None None False) example_libs ''u'' None None
      (API_mem () [example_response 200 ''text/plain'' ''success''] 0)
    = (Inr (Origin ''success''),
       snd (transmit ''u'' None (API_mem () [example_response 200 ''text/plain'' ''success''] 0)))
   \<and> request (API ''wx0'' ''secret'' None None False) example_libs ''u'' None None
      (API_mem () [example_response 200 ''application/json'' ''<html>''] 0)
    = (Inl (ParseError ''<html>''),
       snd (transmit ''u'' None (API_mem () [example_response 200 ''application/json'' ''<html>''] 0)))
   \<and> request (API ''wx0'' ''secret'' None None False) example_libs ''u'' None None
      (API_mem () [example_response 200 ''image/jpeg'' ''JFIF''] 0)
    = (Inr (Buffer ''JFIF''),
       snd (transmit ''u'' None (API_mem () [example_response 200 ''image/jpeg'' ''JFIF''] 0)))\<close>
  using
    request_decoding
      [where m = \<open>API_mem () [example_response 200 ''application/json'' ''{"total":2}''] 0\<close>
         and res = \<open>example_response 200 ''application/json'' ''{"total":2}''\<close> and rs = "[]"
         and buffer = \<open>''{"total":2}''\<close> and contentType = "''application/json''"
         and this = "API ''wx0'' ''secret'' None None False" and L = example_libs
         and url = "''u''" and opts = None and retry = None]
    request_decoding
      [where m = "API_mem () [example_response 200 ''text/plain'' ''success''] 0"
         and res = "example_response 200 ''text/plain'' ''success''" and rs = "[]"
         and buffer = "''success''" and contentType = "''text/plain''"
         and this = "API ''wx0'' ''secret'' None None False" and L = example_libs
         and url = "''u''" and opts = None and retry = None]
    request_decoding
      [where m = "API_mem () [example_response 200 ''application/json'' ''<html>''] 0"
         and res = "example_response 200 ''application/json'' ''<html>''" and rs = "[]"
         and buffer = "''<html>''" and contentType = "''application/json''"
         and this = "API ''wx0'' ''secret'' None None False" and L = example_libs
         and url = "''u''" and opts = None and retry = None]
    request_decoding
      [where m = "API_mem () [example_response 200 ''image/jpeg'' ''JFIF''] 0"
         and res = "example_response 200 ''image/jpeg'' ''JFIF''" and rs = "[]"
         and buffer = "''JFIF''" and contentType = "''image/jpeg''"
         and this = "API ''wx0'' ''secret'' None None False" and L = example_libs
         and url = "''u''" and opts = None and retry = None]
  by (simp add: API_mem_def example_response_def example_libs_def example_parse_def)

text \<open>
  C8. For every AccessToken and every current time \<open>t\<close>, \<open>isValid\<close> is true iff the
  token string is non-empty and \<open>t\<close> is strictly before \<open>expireTime\<close>; in particular an
  AccessToken whose \<open>expireTime\<close> is in the past or equal to the current instant is not
  valid, even with a non-empty token.
\<close>

theorem isValid_iff:
  "isValid tok t = (accessToken tok \<noteq> [] \<and> t < expireTime tok)
   \<and> (expireTime tok < t \<longrightarrow> \<not> isValid tok t)
   \<and> (expireTime tok = t \<longrightarrow> \<not> isValid tok t)"
  by (auto simp: isValid_def truthy_string_def)

theorem isValid_iff_witness:
  "\<not> isValid \<lparr>accessToken = ''T1'', expireTime = 1000\<rparr> 1000
   \<and> \<not> isValid \<lparr>accessToken = ''T1'', expireTime = 1000\<rparr> 1001
   \<and> isValid \<lparr>accessToken = ''T1'', expireTime = 1000\<rparr> 999
   \<and> \<not> isValid \<lparr>accessToken = [], expireTime = 1000\<rparr> 999"
  using isValid_iff [of "\<lparr>accessToken = ''T1'', expireTime = 1000\<rparr>" 1000]
    isValid_iff [of "\<lparr>accessToken = ''T1'', expireTime = 1000\<rparr>" 1001]
    isValid_iff [of "\<lparr>accessToken = ''T1'', expireTime = 1000\<rparr>" 999]
    isValid_iff [of "\<lparr>accessToken = [], expireTime = 1000\<rparr>" 999]
  by simp

text \<open>
  C9. When the status code of the response is outside 200..204, \<open>request\<close> raises the
  WeChatAPIError that names the url and the status code. Nothing but the one HTTP call has
  happened: the token store is untouched (no invalidation), exactly one call was made (no
  retry), and the outcome is the same whatever the body and the content type of the
  response are and whatever the parser does (the body is neither read nor decoded).
\<close>

theorem request_status_outside_range:
  assumes "responses m = res # rs"
    and "statusCode res < 200 \<or> 204 < statusCode res"
  shows "request this L url opts retry m = (Inl (StatusError url (statusCode res)), snd (transmit url opts m))
    \<and> store (snd (request this L url opts retry m)) = store m
    \<and> map s_url (sent_log (snd (request this L url opts retry m))) = map s_url (sent_log m) @ [url]
    \<and> request this L' url opts retry (m\<lparr>responses := res\<lparr>body := b, content_type := ct\<rparr> # rs\<rparr>)
        = request this L url opts retry m"
proof -
  have r: "request this L url opts retry m = (Inl (StatusError url (statusCode res)), snd (transmit url opts m))"
    for L :: libs
    using assms(2) by (subst request_unfold, subst transmit_cons [OF assms(1)]) simp
  let ?m = "m\<lparr>responses := res\<lparr>body := b, content_type := ct\<rparr> # rs\<rparr>"
  have "request this L' url opts retry ?m
      = (Inl (StatusError url (statusCode res)), snd (transmit url opts ?m))"
    using assms(2)
    by (subst request_unfold, subst transmit_cons [of ?m "res\<lparr>body := b, content_type := ct\<rparr>" rs]) simp_all
  moreover have "snd (transmit url opts ?m) = snd (transmit url opts m)"
  proof -
    have "(snd (transmit url opts m))\<lparr>responses := rs\<rparr> = snd (transmit url opts m)"
      using transmit_frame(4) [of url opts m] assms(1) by simp
    then show ?thesis by (simp add: transmit_responses)
  qed
  ultimately show ?thesis
    by (simp add: r transmit_frame)
qed

theorem request_status_outside_range_witness:
  "request (API ''wx0'' ''secret'' None None False) example_libs ''https://api.weixin.qq.com/cgi-bin/user/get?access_token=T0'' None None
     (API_mem () [example_response 500 ''text/html'' ''Internal Server Error''] 0)
   = (Inl (StatusError ''https://api.weixin.qq.com/cgi-bin/user/get?access_token=T0'' 500),
      snd (transmit ''https://api.weixin.qq.com/cgi-bin/user/get?access_token=T0'' None
            (API_mem () [example_response 500 ''text/html'' ''Internal Server Error''] 0)))"
  using request_status_outside_range
    [where m = "API_mem () [example_response 500 ''text/html'' ''Internal Server Error''] 0"
       and res = "example_response 500 ''text/html'' ''Internal Server Error''" and rs = "[]"
       and this = "API ''wx0'' ''secret'' None None False" and L = example_libs and L' = example_libs
       and url = "''https://api.weixin.qq.com/cgi-bin/user/get?access_token=T0''"
       and opts = None and retry = None and b = None and ct = None]
  by (simp add: API_mem_def example_response_def)

text \<open>
  C10. When \<open>this.defaults.headers\<close> is an object and the call gives a \<open>headers\<close> object,
  the options handed to the transport hold the very headers object of the defaults, the
  entries of the per-call headers are written into it, \<open>this.defaults\<close> still refers to it
  after the call, and a later \<open>request\<close> without per-call headers sends it with those
  entries.
\<close>

theorem request_headers_shared:
  assumes "headers (defaults m) = HObj a" and "a < length (heap m)"
    and "headers given = HObj b" and "b < length (heap m)"
    and "distinct (map fst (heap m ! b))"
    and "m' = snd (request this L url (Some given) retry m)"
  shows
    "headers (defaults m') = HObj a
     \<and> headers (s_options (last (sent_log m'))) = HObj a
     \<and> heap m' = (heap m)[a := Object_assign (heap m ! a) (heap m ! b)]
     \<and> (\<forall>(key, v) \<in> set (heap m ! b). map_of (heap m' ! a) key = Some v)
     \<and> (\<forall>url2 opts2 retry2.
          (case opts2 of None \<Rightarrow> HAbsent | Some given2 \<Rightarrow> headers given2) \<in> {HAbsent, HFalsy} \<longrightarrow>
          s_headers (last (sent_log (snd (request this L url2 opts2 retry2 m')))) = Some (heap m' ! a))"
proof -
  have mo: "merge_options (Some given) m =
     (\<lparr>headers = HObj a, others = Object_assign (others (defaults m)) (others given)\<rparr>,
      m\<lparr>heap := (heap m)[a := Object_assign (heap m ! a) (heap m ! b)]\<rparr>)"
    using merge_options_alias [OF assms(1,3)] assms(2,4) by (simp add: deref_def)
  have d: "defaults m' = defaults m"
    by (simp add: assms(6) request_frame)
  have h: "heap m' = (heap m)[a := Object_assign (heap m ! a) (heap m ! b)]"
    by (simp add: assms(6) request_frame mo)
  have s: "headers (s_options (last (sent_log m'))) = HObj a"
    by (simp add: assms(6) request_frame transmit_frame mo)
  have e: "map_of (heap m' ! a) key = Some v" if "(key, v) \<in> set (heap m ! b)" for key v
    using that assms(2,5) by (simp add: h map_of_assign_entry)
  have n: "s_headers (last (sent_log (snd (request this L url2 opts2 retry2 m')))) = Some (heap m' ! a)"
    if "(case opts2 of None \<Rightarrow> HAbsent | Some given2 \<Rightarrow> headers given2) \<in> {HAbsent, HFalsy}"
    for url2 opts2 retry2
  proof -
    have "headers (fst (merge_options opts2 m')) = HObj a" "heap (snd (merge_options opts2 m')) = heap m'"
      using merge_options_plain [OF that, of m'] by (simp_all add: d assms(1))
    moreover have "a < length (heap m')"
      using assms(2) by (simp add: h)
    ultimately show ?thesis
      by (simp add: request_frame transmit_frame deref_def)
  qed
  from d h s e n show ?thesis
    by (auto simp: assms(1))
qed

theorem request_headers_shared_witness:
  "heap (snd (request (API ''wx0'' ''secret'' None None False) example_libs ''u1''
       (Some \<lparr>headers = HObj 1, others = []\<rparr>) None
       (setOpts \<lparr>headers = HObj 0, others = [(''timeout'', ''15000'')]\<rparr>
          ((API_mem () [example_response 200 ''text/plain'' ''ok'', example_response 200 ''text/plain'' ''ok''] 0)
             \<lparr>heap := [[(''User-Agent'', ''wx'')], [(''X-Trace'', ''abc'')]]\<rparr>))))
     = [[(''User-Agent'', ''wx''), (''X-Trace'', ''abc'')], [(''X-Trace'', ''abc'')]]
   \<and> s_headers (last (sent_log (snd (request (API ''wx0'' ''secret'' None None False) example_libs ''u2'' None None
       (snd (request (API ''wx0'' ''secret'' None None False) example_libs ''u1''
          (Some \<lparr>headers = HObj 1, others = []\<rparr>) None
          (setOpts \<lparr>headers = HObj 0, others = [(''timeout'', ''15000'')]\<rparr>
          ((API_mem () [example_response 200 ''text/plain'' ''ok'', example_response 200 ''text/plain'' ''ok''] 0)
             \<lparr>heap := [[(''User-Agent'', ''wx'')], [(''X-Trace'', ''abc'')]]\<rparr>))))))))
     = Some [(''User-Agent'', ''wx''), (''X-Trace'', ''abc'')]"
  using
    request_headers_shared
      [where m = "setOpts \<lparr>headers = HObj 0, others = [(''timeout'', ''15000'')]\<rparr>
          ((API_mem () [example_response 200 ''text/plain'' ''ok'', example_response 200 ''text/plain'' ''ok''] 0)
             \<lparr>heap := [[(''User-Agent'', ''wx'')], [(''X-Trace'', ''abc'')]]\<rparr>)"
         and a = 0 and b = 1 and given = "\<lparr>headers = HObj 1, others = []\<rparr>"
         and this = "API ''wx0'' ''secret'' None None False" and L = example_libs
         and url = "''u1''" and retry = None, OF _ _ _ _ _ refl]
  by (simp add: API_mem_def setOpts_def Object_assign_def)

end
